theory Spec2Isabelle
  imports Complex_Main
begin

section \<open>Value screener: data model\<close>

text \<open>
  The embedding follows \<^verbatim>\<open>src/value_screener.py\<close>. Python floats are modelled as
  \<^typ>\<open>real\<close>: every present value is a finite number and arithmetic is exact. An
  attribute that is missing or holds \<^verbatim>\<open>None\<close> is \<^term>\<open>None\<close>.
  Exceptions are values of type \<open>error\<close>, carried in the left summand of a sum.
\<close>

datatype error = ValueError | ApiError

record FinancialMetrics =
  price_to_earnings_ratio :: "real option"
  price_to_book_ratio :: "real option"
  debt_to_assets :: "real option"
  current_ratio :: "real option"
  revenue_growth :: "real option"
  earnings_growth :: "real option"

record LineItem =
  earnings_per_share :: "real option"
  book_value_per_share :: "real option"
  outstanding_shares :: "real option"

record ScoreResult =
  ticker :: string
  score :: int
  margin_of_safety :: "real option"
  reasons :: "string list"

text \<open>
  What the module takes from outside: the three functions imported from
  \<^verbatim>\<open>src.tools.api\<close> (arguments in call order; each may raise) and Python's
  float formatting \<^verbatim>\<open>format(value, spec)\<close>, which the f-strings call with the
  specs \<^verbatim>\<open>.1f\<close>, \<^verbatim>\<open>.2f\<close> and \<^verbatim>\<open>.0%\<close>. The fetchers are functions of their
  arguments: asking twice for the same ticker and date gives the same answer.
\<close>

record env =
  get_financial_metrics :: "string \<Rightarrow> string \<Rightarrow> string \<Rightarrow> int \<Rightarrow> error + FinancialMetrics list"
  search_line_items :: "string \<Rightarrow> string list \<Rightarrow> string \<Rightarrow> string \<Rightarrow> int \<Rightarrow> error + LineItem list"
  get_market_cap :: "string \<Rightarrow> string \<Rightarrow> error + real option"
  py_format :: "real \<Rightarrow> string \<Rightarrow> string"

definition DEFAULT_LINE_ITEMS :: "string list" where
  "DEFAULT_LINE_ITEMS = [''earnings_per_share'', ''book_value_per_share'', ''outstanding_shares'']"

section \<open>Margin of safety\<close>

text \<open>\<^verbatim>\<open>math.sqrt\<close> raises \<^verbatim>\<open>ValueError\<close> (math domain error) on a negative argument.\<close>

definition math_sqrt :: "real \<Rightarrow> error + real" where
  "math_sqrt x = (if x < 0 then Inl ValueError else Inr (sqrt x))"

text \<open>
  The guard \<^verbatim>\<open>eps and bvps and shares and market_cap and market_cap > 0\<close> holds when
  each value is present and nonzero and the market cap is positive. The square root is
  taken before the price is computed and tested.
\<close>

definition compute_margin_of_safety :: "LineItem \<Rightarrow> real option \<Rightarrow> error + real option" where
  "compute_margin_of_safety line_item market_cap =
     (case (earnings_per_share line_item, book_value_per_share line_item,
            outstanding_shares line_item, market_cap) of
        (Some eps, Some bvps, Some shares, Some mc) \<Rightarrow>
          if eps \<noteq> 0 \<and> bvps \<noteq> 0 \<and> shares \<noteq> 0 \<and> mc \<noteq> 0 \<and> mc > 0 then
            (case math_sqrt (22.5 * eps * bvps) of
               Inl e \<Rightarrow> Inl e
             | Inr graham_number \<Rightarrow>
                 (let price = mc / shares in
                  if price > 0 then Inr (Some ((graham_number - price) / price))
                  else Inr None))
          else Inr None
      | _ \<Rightarrow> Inr None)"

section \<open>Scoring one ticker\<close>

text \<open>
  The running pair \<^verbatim>\<open>(score, reasons)\<close>. \<open>award\<close> is the body shared by every
  rule: \<^verbatim>\<open>score += n; reasons.append(text)\<close>.
\<close>

type_synonym tally = "int \<times> string list"

definition award :: "int \<Rightarrow> string \<Rightarrow> tally \<Rightarrow> tally" where
  "award n txt st = (fst st + n, snd st @ [txt])"

text \<open>One definition per \<^verbatim>\<open>if\<close> block of \<^verbatim>\<open>score_stock\<close>, in source order.\<close>

definition rule_pe :: "env \<Rightarrow> FinancialMetrics \<Rightarrow> tally \<Rightarrow> tally" where
  "rule_pe e fm st =
     (case price_to_earnings_ratio fm of
        Some v \<Rightarrow> if v \<noteq> 0 \<and> v < 15
                  then award 1 (''P/E '' @ py_format e v ''.1f'' @ '' < 15'') st else st
      | None \<Rightarrow> st)"

definition rule_pb :: "env \<Rightarrow> FinancialMetrics \<Rightarrow> tally \<Rightarrow> tally" where
  "rule_pb e fm st =
     (case price_to_book_ratio fm of
        Some v \<Rightarrow> if v \<noteq> 0 \<and> v < 1.5
                  then award 1 (''P/B '' @ py_format e v ''.1f'' @ '' < 1.5'') st else st
      | None \<Rightarrow> st)"

definition rule_da :: "env \<Rightarrow> FinancialMetrics \<Rightarrow> tally \<Rightarrow> tally" where
  "rule_da e fm st =
     (case debt_to_assets fm of
        Some v \<Rightarrow> if v \<noteq> 0 \<and> v < 0.5
                  then award 1 (''Debt/Assets '' @ py_format e v ''.2f'' @ '' < 0.5'') st else st
      | None \<Rightarrow> st)"

definition rule_cr :: "env \<Rightarrow> FinancialMetrics \<Rightarrow> tally \<Rightarrow> tally" where
  "rule_cr e fm st =
     (case current_ratio fm of
        Some v \<Rightarrow> if v \<noteq> 0 \<and> v > 1.5
                  then award 1 (''Current ratio '' @ py_format e v ''.2f'' @ '' > 1.5'') st else st
      | None \<Rightarrow> st)"

definition rule_mos :: "env \<Rightarrow> real option \<Rightarrow> tally \<Rightarrow> tally" where
  "rule_mos e mos st =
     (case mos of
        Some m \<Rightarrow> if m > 0.3
                  then award 2 (''Margin of safety '' @ py_format e m ''.0%'') st else st
      | None \<Rightarrow> st)"

definition rule_rg :: "env \<Rightarrow> FinancialMetrics \<Rightarrow> tally \<Rightarrow> tally" where
  "rule_rg e fm st =
     (case revenue_growth fm of
        Some v \<Rightarrow> if v \<noteq> 0 \<and> v > 0.05
                  then award 1 (''Revenue growth '' @ py_format e v ''.0%'') st else st
      | None \<Rightarrow> st)"

definition rule_eg :: "env \<Rightarrow> FinancialMetrics \<Rightarrow> tally \<Rightarrow> tally" where
  "rule_eg e fm st =
     (case earnings_growth fm of
        Some v \<Rightarrow> if v \<noteq> 0 \<and> v > 0.05
                  then award 1 (''Earnings growth '' @ py_format e v ''.0%'') st else st
      | None \<Rightarrow> st)"

text \<open>
  The part of \<^verbatim>\<open>score_stock\<close> after the early return: \<^verbatim>\<open>fm = metrics[0]\<close>,
  \<^verbatim>\<open>li = line_items[0]\<close> and a market cap that is not \<^verbatim>\<open>None\<close>.
\<close>

definition score_body :: "env \<Rightarrow> string \<Rightarrow> FinancialMetrics \<Rightarrow> LineItem \<Rightarrow> real \<Rightarrow> error + ScoreResult option" where
  "score_body e t fm li mc =
     (let st = rule_cr e fm (rule_da e fm (rule_pb e fm (rule_pe e fm (0, [])))) in
      case compute_margin_of_safety li (Some mc) of
        Inl err \<Rightarrow> Inl err
      | Inr mos \<Rightarrow>
          (let st' = rule_eg e fm (rule_rg e fm (rule_mos e mos st)) in
           Inr (Some \<lparr>ticker = t, score = fst st', margin_of_safety = mos, reasons = snd st'\<rparr>)))"

text \<open>
  The three fetches run in source order and an exception of any of them leaves the
  function. \<^verbatim>\<open>not metrics or not line_items or market_cap is None\<close> returns
  \<^verbatim>\<open>None\<close>: an empty list is falsy.
\<close>

definition score_stock :: "env \<Rightarrow> string \<Rightarrow> string \<Rightarrow> error + ScoreResult option" where
  "score_stock e t end_date =
     (case get_financial_metrics e t end_date ''annual'' 1 of
        Inl err \<Rightarrow> Inl err
      | Inr metrics \<Rightarrow>
     (case search_line_items e t DEFAULT_LINE_ITEMS end_date ''annual'' 1 of
        Inl err \<Rightarrow> Inl err
      | Inr line_items \<Rightarrow>
     (case get_market_cap e t end_date of
        Inl err \<Rightarrow> Inl err
      | Inr market_cap \<Rightarrow>
          (case (metrics, line_items, market_cap) of
             (fm # _, li # _, Some mc) \<Rightarrow> score_body e t fm li mc
           | _ \<Rightarrow> Inr None))))"

section \<open>Screening a list of tickers\<close>

text \<open>
  The loop of \<^verbatim>\<open>screen_stocks\<close>: results are appended in ticker order, a ticker
  without a result is passed over, and an exception ends the loop.
\<close>

fun collect :: "env \<Rightarrow> string \<Rightarrow> string list \<Rightarrow> ScoreResult list \<Rightarrow> error + ScoreResult list" where
  "collect e end_date [] results = Inr results"
| "collect e end_date (t # ts) results =
     (case score_stock e t end_date of
        Inl err \<Rightarrow> Inl err
      | Inr None \<Rightarrow> collect e end_date ts results
      | Inr (Some result) \<Rightarrow> collect e end_date ts (results @ [result]))"

text \<open>
  \<^verbatim>\<open>results.sort(key=lambda r: r["score"], reverse=True)\<close>: Python's sort is stable,
  and with \<^verbatim>\<open>reverse=True\<close> elements with equal keys keep their original order. That
  is an ascending stable sort on the negated key.
\<close>

definition sort_by_score_desc :: "ScoreResult list \<Rightarrow> ScoreResult list" where
  "sort_by_score_desc results = sort_key (\<lambda>r. - score r) results"

definition screen_stocks :: "env \<Rightarrow> string list \<Rightarrow> string \<Rightarrow> error + ScoreResult list" where
  "screen_stocks e tickers end_date =
     (case collect e end_date tickers [] of
        Inl err \<Rightarrow> Inl err
      | Inr results \<Rightarrow> Inr (sort_by_score_desc results))"

section \<open>The rule table of the specification\<close>

text \<open>
  The specification's reading of one rule: skipped when its input is absent or zero,
  otherwise one reason when the threshold test holds. \<open>fired\<close> is the list of reasons
  a rule adds, empty or a singleton.
\<close>

definition fired :: "real option \<Rightarrow> (real \<Rightarrow> bool) \<Rightarrow> (real \<Rightarrow> string) \<Rightarrow> string list" where
  "fired v test txt =
     (case v of None \<Rightarrow> [] | Some x \<Rightarrow> if x \<noteq> 0 \<and> test x then [txt x] else [])"

text \<open>
  The specification's seven rules in their fixed order, each with its threshold and its
  text: one decimal for P/E and P/B, two for Debt/Assets and Current ratio, whole
  percentages for the margin of safety and the two growth rules.
\<close>

definition spec_reasons :: "env \<Rightarrow> FinancialMetrics \<Rightarrow> real option \<Rightarrow> string list" where
  "spec_reasons e fm mos =
     fired (price_to_earnings_ratio fm) (\<lambda>v. v < 15)
       (\<lambda>v. ''P/E '' @ py_format e v ''.1f'' @ '' < 15'')
   @ fired (price_to_book_ratio fm) (\<lambda>v. v < 1.5)
       (\<lambda>v. ''P/B '' @ py_format e v ''.1f'' @ '' < 1.5'')
   @ fired (debt_to_assets fm) (\<lambda>v. v < 0.5)
       (\<lambda>v. ''Debt/Assets '' @ py_format e v ''.2f'' @ '' < 0.5'')
   @ fired (current_ratio fm) (\<lambda>v. v > 1.5)
       (\<lambda>v. ''Current ratio '' @ py_format e v ''.2f'' @ '' > 1.5'')
   @ fired mos (\<lambda>v. v > 0.3)
       (\<lambda>v. ''Margin of safety '' @ py_format e v ''.0%'')
   @ fired (revenue_growth fm) (\<lambda>v. v > 0.05)
       (\<lambda>v. ''Revenue growth '' @ py_format e v ''.0%'')
   @ fired (earnings_growth fm) (\<lambda>v. v > 0.05)
       (\<lambda>v. ''Earnings growth '' @ py_format e v ''.0%'')"

text \<open>The result the loop of \<^verbatim>\<open>screen_stocks\<close> keeps for a ticker, if any.\<close>

definition kept :: "env \<Rightarrow> string \<Rightarrow> string \<Rightarrow> ScoreResult option" where
  "kept e end_date t =
     (case score_stock e t end_date of Inr (Some r) \<Rightarrow> Some r | _ \<Rightarrow> None)"

section \<open>Example data\<close>

text \<open>
  A small market for the concrete instances below. \<open>cheap_metrics\<close> passes all six
  metric rules; \<open>dull_metrics\<close> passes the P/E rule only and has a debt ratio of
  exactly zero. \<open>graham_item\<close> is the specification's example (Graham number 30);
  \<open>loss_item\<close> has negative earnings.
\<close>

definition cheap_metrics :: FinancialMetrics where
  "cheap_metrics =
     \<lparr>price_to_earnings_ratio = Some 10, price_to_book_ratio = Some 1,
      debt_to_assets = Some 0.3, current_ratio = Some 2,
      revenue_growth = Some 0.1, earnings_growth = Some 0.2\<rparr>"

definition dull_metrics :: FinancialMetrics where
  "dull_metrics =
     \<lparr>price_to_earnings_ratio = Some 12, price_to_book_ratio = Some 3,
      debt_to_assets = Some 0, current_ratio = None,
      revenue_growth = Some 0.01, earnings_growth = None\<rparr>"

definition graham_item :: LineItem where
  "graham_item =
     \<lparr>earnings_per_share = Some 2, book_value_per_share = Some 20,
      outstanding_shares = Some 100\<rparr>"

definition loss_item :: LineItem where
  "loss_item =
     \<lparr>earnings_per_share = Some (- 2), book_value_per_share = Some 20,
      outstanding_shares = Some 100\<rparr>"

text \<open>
  Tickers AAA and BBB have the cheap metrics, DDD and EEE the dull ones, every other
  ticker has no metrics. AAA is priced at 15 a share; BBB and CCC report a market cap
  of zero; DDD and EEE are priced at 60 a share; no other ticker has a market cap.
  The formatter prints the format spec in braces.
\<close>

definition example_env :: env where
  "example_env =
     \<lparr>get_financial_metrics = (\<lambda>t d p n.
        Inr (if t = ''AAA'' \<or> t = ''BBB'' then [cheap_metrics]
             else if t = ''DDD'' \<or> t = ''EEE'' then [dull_metrics] else [])),
      search_line_items = (\<lambda>t items d p n. Inr [graham_item]),
      get_market_cap = (\<lambda>t d.
        Inr (if t = ''AAA'' then Some 1500
             else if t = ''BBB'' \<or> t = ''CCC'' then Some 0
             else if t = ''DDD'' \<or> t = ''EEE'' then Some 6000 else None)),
      py_format = (\<lambda>v spec. ''{:'' @ spec @ ''}'')\<rparr>"

text \<open>What scoring and screening return on the example market.\<close>

definition result_AAA :: ScoreResult where
  "result_AAA =
     \<lparr>ticker = ''AAA'', score = 8, margin_of_safety = Some 1,
      reasons = [''P/E {:.1f} < 15'', ''P/B {:.1f} < 1.5'', ''Debt/Assets {:.2f} < 0.5'',
        ''Current ratio {:.2f} > 1.5'', ''Margin of safety {:.0%}'',
        ''Revenue growth {:.0%}'', ''Earnings growth {:.0%}'']\<rparr>"

definition result_BBB :: ScoreResult where
  "result_BBB =
     \<lparr>ticker = ''BBB'', score = 6, margin_of_safety = None,
      reasons = [''P/E {:.1f} < 15'', ''P/B {:.1f} < 1.5'', ''Debt/Assets {:.2f} < 0.5'',
        ''Current ratio {:.2f} > 1.5'', ''Revenue growth {:.0%}'',
        ''Earnings growth {:.0%}'']\<rparr>"

definition result_dull :: "string \<Rightarrow> ScoreResult" where
  "result_dull t =
     \<lparr>ticker = t, score = 1, margin_of_safety = Some (- 1 / 2),
      reasons = [''P/E {:.1f} < 15'']\<rparr>"

text \<open>Metrics and a line item in which every value is absent or zero.\<close>

definition blank_metrics :: FinancialMetrics where
  "blank_metrics =
     \<lparr>price_to_earnings_ratio = None, price_to_book_ratio = Some 0,
      debt_to_assets = Some 0, current_ratio = None,
      revenue_growth = Some 0, earnings_growth = None\<rparr>"

definition blank_item :: LineItem where
  "blank_item =
     \<lparr>earnings_per_share = Some 0, book_value_per_share = Some 20,
      outstanding_shares = None\<rparr>"

text \<open>
  A second market in which every ticker has the same mixed metrics: the P/B, Current
  ratio and Earnings growth rules pass, the P/E and Debt/Assets rules fail and revenue
  growth is absent. At 15 a share the margin of safety of \<open>graham_item\<close> is 1.
\<close>

definition mixed_metrics :: FinancialMetrics where
  "mixed_metrics =
     \<lparr>price_to_earnings_ratio = Some 20, price_to_book_ratio = Some 1.2,
      debt_to_assets = Some 0.7, current_ratio = Some 3,
      revenue_growth = None, earnings_growth = Some 0.5\<rparr>"

definition mixed_env :: env where
  "mixed_env =
     \<lparr>get_financial_metrics = (\<lambda>t d p n. Inr [mixed_metrics]),
      search_line_items = (\<lambda>t items d p n. Inr [graham_item]),
      get_market_cap = (\<lambda>t d. Inr (Some 1500)),
      py_format = (\<lambda>v spec. ''{:'' @ spec @ ''}'')\<rparr>"

definition result_MIX :: ScoreResult where
  "result_MIX =
     \<lparr>ticker = ''MIX'', score = 5, margin_of_safety = Some 1,
      reasons = [''P/B {:.1f} < 1.5'', ''Current ratio {:.2f} > 1.5'',
        ''Margin of safety {:.0%}'', ''Earnings growth {:.0%}'']\<rparr>"

section \<open>Shape of the tally\<close>

text \<open>Each rule adds its fired reasons, and one point (two for the margin) per reason.\<close>

lemma length_fired: "length (fired v test txt) \<le> 1"
  by (simp add: fired_def split: option.split)

lemma rule_pe_fired:
  "rule_pe e fm st =
     (fst st + int (length (fired (price_to_earnings_ratio fm) (\<lambda>v. v < 15)
        (\<lambda>v. ''P/E '' @ py_format e v ''.1f'' @ '' < 15''))),
      snd st @ fired (price_to_earnings_ratio fm) (\<lambda>v. v < 15)
        (\<lambda>v. ''P/E '' @ py_format e v ''.1f'' @ '' < 15''))"
  by (simp add: rule_pe_def fired_def award_def split: option.split)

lemma rule_pb_fired:
  "rule_pb e fm st =
     (fst st + int (length (fired (price_to_book_ratio fm) (\<lambda>v. v < 1.5)
        (\<lambda>v. ''P/B '' @ py_format e v ''.1f'' @ '' < 1.5''))),
      snd st @ fired (price_to_book_ratio fm) (\<lambda>v. v < 1.5)
        (\<lambda>v. ''P/B '' @ py_format e v ''.1f'' @ '' < 1.5''))"
  by (simp add: rule_pb_def fired_def award_def split: option.split)

lemma rule_da_fired:
  "rule_da e fm st =
     (fst st + int (length (fired (debt_to_assets fm) (\<lambda>v. v < 0.5)
        (\<lambda>v. ''Debt/Assets '' @ py_format e v ''.2f'' @ '' < 0.5''))),
      snd st @ fired (debt_to_assets fm) (\<lambda>v. v < 0.5)
        (\<lambda>v. ''Debt/Assets '' @ py_format e v ''.2f'' @ '' < 0.5''))"
  by (simp add: rule_da_def fired_def award_def split: option.split)

lemma rule_cr_fired:
  "rule_cr e fm st =
     (fst st + int (length (fired (current_ratio fm) (\<lambda>v. v > 1.5)
        (\<lambda>v. ''Current ratio '' @ py_format e v ''.2f'' @ '' > 1.5''))),
      snd st @ fired (current_ratio fm) (\<lambda>v. v > 1.5)
        (\<lambda>v. ''Current ratio '' @ py_format e v ''.2f'' @ '' > 1.5''))"
  by (simp add: rule_cr_def fired_def award_def split: option.split)

lemma rule_mos_fired:
  "rule_mos e mos st =
     (fst st + 2 * int (length (fired mos (\<lambda>v. v > 0.3)
        (\<lambda>v. ''Margin of safety '' @ py_format e v ''.0%''))),
      snd st @ fired mos (\<lambda>v. v > 0.3)
        (\<lambda>v. ''Margin of safety '' @ py_format e v ''.0%''))"
  by (auto simp add: rule_mos_def fired_def award_def split: option.split)

lemma rule_rg_fired:
  "rule_rg e fm st =
     (fst st + int (length (fired (revenue_growth fm) (\<lambda>v. v > 0.05)
        (\<lambda>v. ''Revenue growth '' @ py_format e v ''.0%''))),
      snd st @ fired (revenue_growth fm) (\<lambda>v. v > 0.05)
        (\<lambda>v. ''Revenue growth '' @ py_format e v ''.0%''))"
  by (simp add: rule_rg_def fired_def award_def split: option.split)

lemma rule_eg_fired:
  "rule_eg e fm st =
     (fst st + int (length (fired (earnings_growth fm) (\<lambda>v. v > 0.05)
        (\<lambda>v. ''Earnings growth '' @ py_format e v ''.0%''))),
      snd st @ fired (earnings_growth fm) (\<lambda>v. v > 0.05)
        (\<lambda>v. ''Earnings growth '' @ py_format e v ''.0%''))"
  by (simp add: rule_eg_def fired_def award_def split: option.split)

lemmas rule_fired =
  rule_pe_fired rule_pb_fired rule_da_fired rule_cr_fired rule_mos_fired
  rule_rg_fired rule_eg_fired

lemma score_body_shape:
  assumes "score_body e t fm li mc = Inr (Some r)"
  shows "compute_margin_of_safety li (Some mc) = Inr (margin_of_safety r)"
    and "ticker r = t"
    and "reasons r = spec_reasons e fm (margin_of_safety r)"
    and "score r = int (length (reasons r))
           + int (length (fired (margin_of_safety r) (\<lambda>v. v > 0.3)
               (\<lambda>v. ''Margin of safety '' @ py_format e v ''.0%'')))"
  using assms
  by (auto simp: score_body_def Let_def rule_fired spec_reasons_def split: sum.splits)

lemma score_stock_body:
  assumes "score_stock e t d = Inr (Some r)"
  shows "\<exists>fm ms li ls mc.
           get_financial_metrics e t d ''annual'' 1 = Inr (fm # ms) \<and>
           search_line_items e t DEFAULT_LINE_ITEMS d ''annual'' 1 = Inr (li # ls) \<and>
           get_market_cap e t d = Inr (Some mc) \<and>
           score_body e t fm li mc = Inr (Some r)"
  using assms
  by (auto simp: score_stock_def split: sum.splits list.splits option.splits)

lemma length_fired_mos:
  "int (length (fired mos (\<lambda>v. v > 0.3) txt))
     = (if \<exists>m. mos = Some m \<and> m > 0.3 then 1 else 0)"
  by (auto simp: fired_def split: option.split)

lemma length_spec_reasons:
  "length (spec_reasons e fm mos)
     \<le> 6 + length (fired mos (\<lambda>v. v > 0.3)
              (\<lambda>v. ''Margin of safety '' @ py_format e v ''.0%''))"
  using
    length_fired[of "price_to_earnings_ratio fm" "\<lambda>v. v < 15"
      "\<lambda>v. ''P/E '' @ py_format e v ''.1f'' @ '' < 15''"]
    length_fired[of "price_to_book_ratio fm" "\<lambda>v. v < 1.5"
      "\<lambda>v. ''P/B '' @ py_format e v ''.1f'' @ '' < 1.5''"]
    length_fired[of "debt_to_assets fm" "\<lambda>v. v < 0.5"
      "\<lambda>v. ''Debt/Assets '' @ py_format e v ''.2f'' @ '' < 0.5''"]
    length_fired[of "current_ratio fm" "\<lambda>v. v > 1.5"
      "\<lambda>v. ''Current ratio '' @ py_format e v ''.2f'' @ '' > 1.5''"]
    length_fired[of "revenue_growth fm" "\<lambda>v. v > 0.05"
      "\<lambda>v. ''Revenue growth '' @ py_format e v ''.0%''"]
    length_fired[of "earnings_growth fm" "\<lambda>v. v > 0.05"
      "\<lambda>v. ''Earnings growth '' @ py_format e v ''.0%''"]
  by (simp add: spec_reasons_def)

lemma score_stock_ticker: "score_stock e t d = Inr (Some r) \<Longrightarrow> ticker r = t"
  using score_stock_body score_body_shape(2) by blast

section \<open>Facts about the margin of safety\<close>

lemma sqrt_900: "sqrt 900 = 30"
  by (rule real_sqrt_unique) simp_all

lemma margin_none_when_unusable:
  assumes "earnings_per_share li = None \<or> earnings_per_share li = Some 0 \<or>
     book_value_per_share li = None \<or> book_value_per_share li = Some 0 \<or>
     outstanding_shares li = None \<or> outstanding_shares li = Some 0 \<or>
     market_cap = None \<or> (\<exists>mc. market_cap = Some mc \<and> mc \<le> 0)"
  shows "compute_margin_of_safety li market_cap = Inr None"
  using assms
  by (auto simp: compute_margin_of_safety_def split: option.splits)

lemma margin_some_only_when_usable:
  assumes "compute_margin_of_safety li market_cap = Inr (Some m)"
  shows "\<exists>eps bvps shares mc.
     earnings_per_share li = Some eps \<and> book_value_per_share li = Some bvps \<and>
     outstanding_shares li = Some shares \<and> market_cap = Some mc \<and>
     eps \<noteq> 0 \<and> bvps \<noteq> 0 \<and> shares \<noteq> 0 \<and> mc > 0 \<and> mc / shares > 0 \<and>
     22.5 * eps * bvps \<ge> 0 \<and>
     m = (sqrt (22.5 * eps * bvps) - mc / shares) / (mc / shares)"
  using assms
  by (auto simp: compute_margin_of_safety_def math_sqrt_def Let_def
      split: option.splits if_splits)

lemma margin_none_when_price_not_positive:
  assumes "earnings_per_share li = Some eps" "book_value_per_share li = Some bvps"
    "outstanding_shares li = Some shares" "22.5 * eps * bvps \<ge> 0" "\<not> mc / shares > 0"
  shows "compute_margin_of_safety li (Some mc) = Inr None"
  using assms
  by (auto simp: compute_margin_of_safety_def math_sqrt_def Let_def)

lemma margin_raises_on_negative_product:
  assumes "earnings_per_share li = Some eps" "book_value_per_share li = Some bvps"
    "outstanding_shares li = Some shares" "shares \<noteq> 0" "mc > 0" "22.5 * eps * bvps < 0"
  shows "compute_margin_of_safety li (Some mc) = Inl ValueError"
  using assms
  by (auto simp: compute_margin_of_safety_def math_sqrt_def)

section \<open>Facts about the screening loop\<close>

lemma kept_Some: "kept e d t = Some r \<longleftrightarrow> score_stock e t d = Inr (Some r)"
  by (auto simp: kept_def split: sum.splits option.splits)

lemma collect_append:
  "collect e d ts acc = Inr rs \<Longrightarrow> rs = acc @ List.map_filter (kept e d) ts"
proof (induction ts arbitrary: acc)
  case Nil
  then show ?case by simp
next
  case (Cons t ts)
  show ?case
  proof (cases "score_stock e t d")
    case (Inl err)
    with Cons.prems show ?thesis by simp
  next
    case (Inr res)
    show ?thesis
    proof (cases res)
      case None
      with Inr Cons.prems have "collect e d ts acc = Inr rs" by simp
      from Cons.IH[OF this] None Inr show ?thesis
        by (simp add: kept_def)
    next
      case (Some r)
      with Inr Cons.prems have "collect e d ts (acc @ [r]) = Inr rs" by simp
      from Cons.IH[OF this] Some Inr show ?thesis
        by (simp add: kept_def)
    qed
  qed
qed

lemma screen_stocks_kept:
  "screen_stocks e ts d = Inr rs \<Longrightarrow>
     rs = sort_by_score_desc (List.map_filter (kept e d) ts)"
  by (auto simp: screen_stocks_def split: sum.splits dest: collect_append)

lemma tickers_kept_with_score:
  "map ticker (filter (\<lambda>r. score r = k) (List.map_filter (kept e d) ts))
     = filter (\<lambda>t. \<exists>r. score_stock e t d = Inr (Some r) \<and> score r = k) ts"
proof (induction ts)
  case Nil
  show ?case by simp
next
  case (Cons t ts)
  show ?case
  proof (cases "kept e d t")
    case None
    then have "\<not> (\<exists>r. score_stock e t d = Inr (Some r))"
      using kept_Some[of e d t] by auto
    with None Cons.IH show ?thesis by simp
  next
    case (Some r)
    then have s: "score_stock e t d = Inr (Some r)" by (simp add: kept_Some)
    then have "ticker r = t" by (rule score_stock_ticker)
    with Some s Cons.IH show ?thesis by simp
  qed
qed

lemma sorted_desc:
  "sorted_wrt (\<lambda>a b. score a \<ge> score b) (sort_by_score_desc xs)"
proof -
  have "sorted (map (\<lambda>r. - score r) (sort_by_score_desc xs))"
    unfolding sort_by_score_desc_def by (rule sorted_sort_key)
  then show ?thesis by (simp add: sorted_map)
qed

section \<open>The example market, evaluated\<close>

lemma graham_mos_1500: "compute_margin_of_safety graham_item (Some 1500) = Inr (Some 1)"
  by (simp add: compute_margin_of_safety_def graham_item_def math_sqrt_def sqrt_900)

lemma graham_mos_6000:
  "compute_margin_of_safety graham_item (Some 6000) = Inr (Some (- 1 / 2))"
  by (simp add: compute_margin_of_safety_def graham_item_def math_sqrt_def sqrt_900)

lemma graham_mos_0: "compute_margin_of_safety graham_item (Some 0) = Inr None"
  by (simp add: compute_margin_of_safety_def graham_item_def)

lemmas rule_defs =
  rule_pe_def rule_pb_def rule_da_def rule_cr_def rule_mos_def rule_rg_def rule_eg_def
  award_def

lemma score_AAA: "score_stock example_env ''AAA'' d = Inr (Some result_AAA)"
  by (simp add: score_stock_def example_env_def score_body_def graham_mos_1500
      cheap_metrics_def rule_defs result_AAA_def)

lemma score_BBB: "score_stock example_env ''BBB'' d = Inr (Some result_BBB)"
  by (simp add: score_stock_def example_env_def score_body_def graham_mos_0
      cheap_metrics_def rule_defs result_BBB_def)

lemma score_CCC: "score_stock example_env ''CCC'' d = Inr None"
  by (simp add: score_stock_def example_env_def)

lemma score_DDD: "score_stock example_env ''DDD'' d = Inr (Some (result_dull ''DDD''))"
  by (simp add: score_stock_def example_env_def score_body_def graham_mos_6000
      dull_metrics_def rule_defs result_dull_def)

lemma score_EEE: "score_stock example_env ''EEE'' d = Inr (Some (result_dull ''EEE''))"
  by (simp add: score_stock_def example_env_def score_body_def graham_mos_6000
      dull_metrics_def rule_defs result_dull_def)

lemma score_MIX: "score_stock mixed_env ''MIX'' d = Inr (Some result_MIX)"
  by (simp add: score_stock_def mixed_env_def score_body_def graham_mos_1500
      mixed_metrics_def rule_defs result_MIX_def)

lemma screen_example:
  "screen_stocks example_env [''DDD'', ''CCC'', ''BBB'', ''EEE'', ''AAA''] d
     = Inr [result_AAA, result_BBB, result_dull ''DDD'', result_dull ''EEE'']"
  by (simp add: screen_stocks_def score_AAA score_BBB score_CCC score_DDD score_EEE
      sort_by_score_desc_def result_AAA_def result_BBB_def result_dull_def)

section \<open>Claims\<close>

text \<open>
  C1. The claim: when eps, bvps and shares are present and nonzero, the market cap is
  positive and 22.5 * eps * bvps is negative, \<open>compute_margin_of_safety\<close> returns no
  value and raises nothing. The code has no guard before the square root: with
  eps = -2, bvps = 20, shares = 100 and a market cap of 1500 the product is -900 and
  \<^verbatim>\<open>math.sqrt\<close> raises \<^verbatim>\<open>ValueError\<close>.
\<close>

theorem margin_of_safety_negative_product_raises:
  "compute_margin_of_safety loss_item (Some 1500) = Inl ValueError"
  by (simp add: compute_margin_of_safety_def loss_item_def math_sqrt_def)

text \<open>
  C2. Whenever \<open>score_stock\<close> returns a result, its score is an integer between 0
  and 8.
\<close>

theorem score_stock_score_range:
  "score_stock e t d = Inr (Some r) \<Longrightarrow> 0 \<le> score r \<and> score r \<le> 8"
proof -
  assume "score_stock e t d = Inr (Some r)"
  then obtain fm li mc where b: "score_body e t fm li mc = Inr (Some r)"
    using score_stock_body by blast
  let ?m = "fired (margin_of_safety r) (\<lambda>v. v > 0.3)
              (\<lambda>v. ''Margin of safety '' @ py_format e v ''.0%'')"
  have s: "score r = int (length (reasons r)) + int (length ?m)"
    by (rule score_body_shape(4)[OF b])
  have "length (reasons r) \<le> 6 + length ?m"
    unfolding score_body_shape(3)[OF b] by (rule length_spec_reasons)
  moreover have "length ?m \<le> 1" by (rule length_fired)
  ultimately show ?thesis using s by simp
qed

theorem score_stock_score_range_witness:
  "score_stock example_env ''AAA'' ''2024-01-01'' = Inr (Some result_AAA) \<and>
   0 \<le> score result_AAA \<and> score result_AAA \<le> 8"
  using score_stock_score_range [OF score_AAA [of "''2024-01-01''"]] score_AAA
  by simp

text \<open>
  C3. The claim: \<open>compute_margin_of_safety\<close> returns no value whenever eps, bvps or
  shares is absent or zero, the market cap is absent or not positive, or the price
  market_cap / shares is not positive. In the code the square root comes before the
  price test: with eps = -2, bvps = 20, shares = -100 and a market cap of 1500 the
  price is -15, and the call raises \<^verbatim>\<open>ValueError\<close> instead of returning no value.
\<close>

theorem margin_of_safety_negative_price_raises:
  "compute_margin_of_safety
     \<lparr>earnings_per_share = Some (- 2), book_value_per_share = Some 20,
      outstanding_shares = Some (- 100)\<rparr> (Some 1500) = Inl ValueError
   \<and> \<not> (1500 / (- 100) > (0::real))"
  by (simp add: compute_margin_of_safety_def math_sqrt_def)

text \<open>
  C4. When eps, bvps and shares are present and nonzero, the market cap is positive,
  22.5 * eps * bvps is not negative and the price market_cap / shares is positive,
  \<open>compute_margin_of_safety\<close> returns (sqrt (22.5 * eps * bvps) - price) / price.
  For eps = 2, bvps = 20, shares = 100 and a market cap of 1500 it returns 1.
\<close>

theorem margin_of_safety_formula:
  "(\<forall>li eps bvps shares mc.
      earnings_per_share li = Some eps \<and> book_value_per_share li = Some bvps \<and>
      outstanding_shares li = Some shares \<and> eps \<noteq> 0 \<and> bvps \<noteq> 0 \<and> shares \<noteq> 0 \<and>
      mc > 0 \<and> 22.5 * eps * bvps \<ge> 0 \<and> mc / shares > 0 \<longrightarrow>
      compute_margin_of_safety li (Some mc)
        = Inr (Some ((sqrt (22.5 * eps * bvps) - mc / shares) / (mc / shares))))
   \<and> compute_margin_of_safety
       \<lparr>earnings_per_share = Some 2, book_value_per_share = Some 20,
        outstanding_shares = Some 100\<rparr> (Some 1500) = Inr (Some 1)"
  by (auto simp: compute_margin_of_safety_def math_sqrt_def Let_def sqrt_900)

theorem margin_of_safety_formula_witness:
  "compute_margin_of_safety
     \<lparr>earnings_per_share = Some 4, book_value_per_share = Some 10,
      outstanding_shares = Some 10\<rparr> (Some 100) = Inr (Some 2)"
proof -
  let ?li = "\<lparr>earnings_per_share = Some 4, book_value_per_share = Some 10,
      outstanding_shares = Some 10\<rparr>"
  note g = margin_of_safety_formula [THEN conjunct1, rule_format, of ?li 4 10 10 100]
  have "compute_margin_of_safety ?li (Some 100)
          = Inr (Some ((sqrt (22.5 * 4 * 10) - 100 / 10) / (100 / 10)))"
    by (rule g) simp
  then show ?thesis by (simp add: sqrt_900)
qed

text \<open>
  C5. When the three fetches return and the metrics list is empty, the line-items list
  is empty or the market cap is absent, \<open>score_stock\<close> returns no result without an
  exception, and no list returned by \<open>screen_stocks\<close> has an entry for that ticker.
\<close>

theorem missing_data_skipped:
  assumes "get_financial_metrics e t d ''annual'' 1 = Inr metrics"
    and "search_line_items e t DEFAULT_LINE_ITEMS d ''annual'' 1 = Inr line_items"
    and "get_market_cap e t d = Inr market_cap"
    and "metrics = [] \<or> line_items = [] \<or> market_cap = None"
  shows "score_stock e t d = Inr None \<and>
         (\<forall>rs. screen_stocks e ts d = Inr rs \<longrightarrow> (\<forall>r \<in> set rs. ticker r \<noteq> t))"
proof -
  have n: "score_stock e t d = Inr None"
    using assms by (auto simp: score_stock_def split: list.splits option.splits)
  have "ticker r \<noteq> t" if a: "screen_stocks e ts d = Inr rs" and r: "r \<in> set rs" for rs r
  proof -
    from r have "r \<in> set (List.map_filter (kept e d) ts)"
      by (simp add: screen_stocks_kept[OF a] sort_by_score_desc_def)
    then obtain u where "kept e d u = Some r"
      by (auto simp: map_filter_def)
    then have u: "score_stock e u d = Inr (Some r)" by (simp add: kept_Some)
    then have "ticker r = u" by (rule score_stock_ticker)
    with u n show ?thesis by auto
  qed
  with n show ?thesis by blast
qed

theorem missing_data_skipped_witness:
  "score_stock example_env ''CCC'' ''2024-01-01'' = Inr None \<and>
   screen_stocks example_env [''DDD'', ''CCC'', ''BBB'', ''EEE'', ''AAA''] ''2024-01-01''
     = Inr [result_AAA, result_BBB, result_dull ''DDD'', result_dull ''EEE''] \<and>
   ''CCC'' \<notin> set (map ticker [result_AAA, result_BBB, result_dull ''DDD'', result_dull ''EEE''])"
proof -
  note s = screen_example [of "''2024-01-01''"]
  have "get_financial_metrics example_env ''CCC'' ''2024-01-01'' ''annual'' 1 = Inr []"
    and "search_line_items example_env ''CCC'' DEFAULT_LINE_ITEMS ''2024-01-01'' ''annual'' 1
           = Inr [graham_item]"
    and "get_market_cap example_env ''CCC'' ''2024-01-01'' = Inr (Some 0)"
    by (simp_all add: example_env_def)
  from missing_data_skipped [OF this, of "[''DDD'', ''CCC'', ''BBB'', ''EEE'', ''AAA'']"] s
  show ?thesis by auto
qed

text \<open>
  C6. The list \<open>screen_stocks\<close> returns is in descending order of score, and for each
  score the tickers of the results with that score come in the order the input list
  has them.
\<close>

theorem screen_stocks_sorted_stable:
  "screen_stocks e ts d = Inr rs \<Longrightarrow>
     sorted_wrt (\<lambda>a b. score a \<ge> score b) rs \<and>
     (\<forall>k. map ticker (filter (\<lambda>r. score r = k) rs)
            = filter (\<lambda>t. \<exists>r. score_stock e t d = Inr (Some r) \<and> score r = k) ts)"
proof -
  assume a: "screen_stocks e ts d = Inr rs"
  have rs: "rs = sort_by_score_desc (List.map_filter (kept e d) ts)"
    using a by (rule screen_stocks_kept)
  have st: "filter (\<lambda>r. score r = k) rs
              = filter (\<lambda>r. score r = k) (List.map_filter (kept e d) ts)" for k
    using sort_key_stable[of "\<lambda>r. - score r" "- k" "List.map_filter (kept e d) ts"]
    by (simp add: rs sort_by_score_desc_def)
  show ?thesis
    by (simp add: st tickers_kept_with_score) (simp add: rs sorted_desc)
qed

theorem screen_stocks_sorted_stable_witness:
  "screen_stocks example_env [''DDD'', ''CCC'', ''BBB'', ''EEE'', ''AAA''] ''2024-01-01''
     = Inr [result_AAA, result_BBB, result_dull ''DDD'', result_dull ''EEE'']
   \<and> map score [result_AAA, result_BBB, result_dull ''DDD'', result_dull ''EEE'']
       = [8, 6, 1, 1]
   \<and> sorted_wrt (\<lambda>a b. score a \<ge> score b)
       [result_AAA, result_BBB, result_dull ''DDD'', result_dull ''EEE'']
   \<and> map ticker (filter (\<lambda>r. score r = 1)
       [result_AAA, result_BBB, result_dull ''DDD'', result_dull ''EEE''])
       = [''DDD'', ''EEE'']"
proof -
  note s = screen_example [of "''2024-01-01''"]
  from screen_stocks_sorted_stable [OF s] show ?thesis
    by (simp add: s result_AAA_def result_BBB_def result_dull_def)
qed

text \<open>
  C7. The reasons of every result are the reasons of the triggered rules in the fixed
  order P/E, P/B, Debt/Assets, Current ratio, Margin of safety, Revenue growth,
  Earnings growth, each in the specification's format: the list is \<open>spec_reasons\<close>
  of the first metrics record and the result's margin of safety.
\<close>

theorem reasons_fixed_order:
  "score_stock e t d = Inr (Some r) \<Longrightarrow>
     \<exists>fm ms. get_financial_metrics e t d ''annual'' 1 = Inr (fm # ms) \<and>
       reasons r = spec_reasons e fm (margin_of_safety r)"
proof -
  assume a: "score_stock e t d = Inr (Some r)"
  from score_stock_body[OF a] obtain fm ms li mc where
    m: "get_financial_metrics e t d ''annual'' 1 = Inr (fm # ms)"
    and b: "score_body e t fm li mc = Inr (Some r)" by blast
  from m score_body_shape(3)[OF b] show ?thesis by blast
qed

theorem reasons_fixed_order_witness:
  "score_stock example_env ''AAA'' ''2024-01-01'' = Inr (Some result_AAA) \<and>
   reasons result_AAA = spec_reasons example_env cheap_metrics (Some 1) \<and>
   reasons result_AAA =
     [''P/E {:.1f} < 15'', ''P/B {:.1f} < 1.5'', ''Debt/Assets {:.2f} < 0.5'',
      ''Current ratio {:.2f} > 1.5'', ''Margin of safety {:.0%}'',
      ''Revenue growth {:.0%}'', ''Earnings growth {:.0%}''] \<and>
   score_stock mixed_env ''MIX'' ''2024-01-01'' = Inr (Some result_MIX) \<and>
   reasons result_MIX = spec_reasons mixed_env mixed_metrics (Some 1) \<and>
   reasons result_MIX =
     [''P/B {:.1f} < 1.5'', ''Current ratio {:.2f} > 1.5'',
      ''Margin of safety {:.0%}'', ''Earnings growth {:.0%}'']"
proof -
  note a = score_AAA [of "''2024-01-01''"]
  note m = score_MIX [of "''2024-01-01''"]
  have ma: "margin_of_safety result_AAA = Some 1"
    by (simp add: result_AAA_def)
  have mm: "margin_of_safety result_MIX = Some 1"
    by (simp add: result_MIX_def)
  have fa: "get_financial_metrics example_env ''AAA'' ''2024-01-01'' ''annual'' 1
              = Inr [cheap_metrics]"
    by (simp add: example_env_def)
  have fm: "get_financial_metrics mixed_env ''MIX'' ''2024-01-01'' ''annual'' 1
              = Inr [mixed_metrics]"
    by (simp add: mixed_env_def)
  have ra: "reasons result_AAA = spec_reasons example_env cheap_metrics (Some 1)"
    using reasons_fixed_order [OF a] fa ma by simp
  have rm: "reasons result_MIX = spec_reasons mixed_env mixed_metrics (Some 1)"
    using reasons_fixed_order [OF m] fm mm by simp
  have sa: "spec_reasons example_env cheap_metrics (Some 1) =
     [''P/E {:.1f} < 15'', ''P/B {:.1f} < 1.5'', ''Debt/Assets {:.2f} < 0.5'',
      ''Current ratio {:.2f} > 1.5'', ''Margin of safety {:.0%}'',
      ''Revenue growth {:.0%}'', ''Earnings growth {:.0%}'']"
    by (simp add: spec_reasons_def fired_def cheap_metrics_def example_env_def)
  have sm: "spec_reasons mixed_env mixed_metrics (Some 1) =
     [''P/B {:.1f} < 1.5'', ''Current ratio {:.2f} > 1.5'',
      ''Margin of safety {:.0%}'', ''Earnings growth {:.0%}'']"
    by (simp add: spec_reasons_def fired_def mixed_metrics_def mixed_env_def)
  from a m ra rm sa sm show ?thesis by simp
qed

text \<open>
  C8. A rule whose input is absent or exactly zero leaves the tally as it is: no
  points, no reason. This holds for each of the six metric rules, also where zero is
  on the passing side of the threshold (a debt ratio of 0 is below 0.5), and for the
  margin-of-safety rule when eps, bvps, shares or the market cap is absent or zero.
\<close>

theorem rules_skip_absent_or_zero:
  "(price_to_earnings_ratio fm = None \<or> price_to_earnings_ratio fm = Some 0
      \<longrightarrow> rule_pe e fm st = st) \<and>
   (price_to_book_ratio fm = None \<or> price_to_book_ratio fm = Some 0
      \<longrightarrow> rule_pb e fm st = st) \<and>
   (debt_to_assets fm = None \<or> debt_to_assets fm = Some 0
      \<longrightarrow> rule_da e fm st = st) \<and>
   (current_ratio fm = None \<or> current_ratio fm = Some 0
      \<longrightarrow> rule_cr e fm st = st) \<and>
   (revenue_growth fm = None \<or> revenue_growth fm = Some 0
      \<longrightarrow> rule_rg e fm st = st) \<and>
   (earnings_growth fm = None \<or> earnings_growth fm = Some 0
      \<longrightarrow> rule_eg e fm st = st) \<and>
   (earnings_per_share li = None \<or> earnings_per_share li = Some 0 \<or>
    book_value_per_share li = None \<or> book_value_per_share li = Some 0 \<or>
    outstanding_shares li = None \<or> outstanding_shares li = Some 0 \<or>
    market_cap = None \<or> market_cap = Some 0
      \<longrightarrow> (\<exists>mos. compute_margin_of_safety li market_cap = Inr mos \<and>
             rule_mos e mos st = st))"
proof -
  have "compute_margin_of_safety li market_cap = Inr None \<and> rule_mos e None st = st"
    if "earnings_per_share li = None \<or> earnings_per_share li = Some 0 \<or>
    book_value_per_share li = None \<or> book_value_per_share li = Some 0 \<or>
    outstanding_shares li = None \<or> outstanding_shares li = Some 0 \<or>
    market_cap = None \<or> market_cap = Some 0"
    using that margin_none_when_unusable[of li market_cap] by (auto simp: rule_mos_def)
  then show ?thesis
    by (auto simp: rule_pe_def rule_pb_def rule_da_def rule_cr_def rule_rg_def rule_eg_def)
qed

theorem rules_skip_absent_or_zero_witness:
  "rule_pe example_env blank_metrics (3, [''kept'']) = (3, [''kept'']) \<and>
   rule_pb example_env blank_metrics (3, [''kept'']) = (3, [''kept'']) \<and>
   rule_da example_env blank_metrics (3, [''kept'']) = (3, [''kept'']) \<and>
   rule_cr example_env blank_metrics (3, [''kept'']) = (3, [''kept'']) \<and>
   rule_rg example_env blank_metrics (3, [''kept'']) = (3, [''kept'']) \<and>
   rule_eg example_env blank_metrics (3, [''kept'']) = (3, [''kept'']) \<and>
   (\<exists>mos. compute_margin_of_safety blank_item (Some 1500) = Inr mos \<and>
      rule_mos example_env mos (3, [''kept'']) = (3, [''kept'']))"
  using rules_skip_absent_or_zero
    [of blank_metrics example_env "(3, [''kept''])" blank_item "Some 1500"]
  by (simp add: blank_metrics_def blank_item_def)

text \<open>
  C9. The claim says every ticker with a present market cap that is zero or negative
  is scored. A ticker with such a market cap and an empty metrics list is skipped all
  the same.
\<close>

theorem nonpositive_market_cap_counterexample:
  "get_market_cap example_env ''CCC'' ''2024-01-01'' = Inr (Some 0) \<and>
   score_stock example_env ''CCC'' ''2024-01-01'' = Inr None"
  by (simp add: score_CCC) (simp add: example_env_def)

text \<open>
  C9, amended. When the metrics and line-items lists are not empty and the market cap
  is present but zero or negative, \<open>score_stock\<close> returns a result: its margin of
  safety is absent, its score and reasons are those of the six metric rules run in
  order, and the score lies between 0 and 6. A ticker with a market cap of zero can
  appear in the output of \<open>screen_stocks\<close> with score 6.
\<close>

theorem nonpositive_market_cap_scored:
  "(\<forall>e t d fm ms li ls mc.
      get_financial_metrics e t d ''annual'' 1 = Inr (fm # ms) \<and>
      search_line_items e t DEFAULT_LINE_ITEMS d ''annual'' 1 = Inr (li # ls) \<and>
      get_market_cap e t d = Inr (Some mc) \<and> mc \<le> 0 \<longrightarrow>
      (\<exists>r. score_stock e t d = Inr (Some r) \<and> ticker r = t \<and>
         margin_of_safety r = None \<and>
         (score r, reasons r) =
            rule_eg e fm (rule_rg e fm (rule_cr e fm (rule_da e fm (rule_pb e fm
              (rule_pe e fm (0, [])))))) \<and>
         0 \<le> score r \<and> score r \<le> 6)) \<and>
   (\<exists>e t d r rs. get_market_cap e t d = Inr (Some 0) \<and>
      screen_stocks e [t] d = Inr rs \<and> r \<in> set rs \<and> ticker r = t \<and> score r = 6)"
proof (intro conjI allI impI)
  fix e :: env and t d fm ms li ls and mc :: real
  assume a: "get_financial_metrics e t d ''annual'' 1 = Inr (fm # ms) \<and>
      search_line_items e t DEFAULT_LINE_ITEMS d ''annual'' 1 = Inr (li # ls) \<and>
      get_market_cap e t d = Inr (Some mc) \<and> mc \<le> 0"
  then have m: "compute_margin_of_safety li (Some mc) = Inr None"
    by (intro margin_none_when_unusable) simp
  let ?st = "rule_eg e fm (rule_rg e fm (rule_cr e fm (rule_da e fm (rule_pb e fm
              (rule_pe e fm (0, []))))))"
  let ?r = "\<lparr>ticker = t, score = fst ?st, margin_of_safety = None, reasons = snd ?st\<rparr>"
  have b: "score_body e t fm li mc = Inr (Some ?r)"
    by (simp add: score_body_def m rule_mos_def Let_def)
  have s: "score_stock e t d = Inr (Some ?r)"
    using a b by (simp add: score_stock_def)
  have "score ?r = int (length (reasons ?r))"
    using score_body_shape(4)[OF b] by (simp add: fired_def)
  moreover have "length (reasons ?r) \<le> 6"
    using score_body_shape(3)[OF b] length_spec_reasons[of e fm None]
    by (simp add: fired_def)
  ultimately have "0 \<le> score ?r \<and> score ?r \<le> 6" by linarith
  with s show "\<exists>r. score_stock e t d = Inr (Some r) \<and> ticker r = t \<and>
         margin_of_safety r = None \<and> (score r, reasons r) = ?st \<and>
         0 \<le> score r \<and> score r \<le> 6"
    by (intro exI[of _ ?r]) simp
next
  have "get_market_cap example_env ''BBB'' [] = Inr (Some 0)"
    by (simp add: example_env_def)
  moreover have "screen_stocks example_env [''BBB''] [] = Inr [result_BBB]"
    by (simp add: screen_stocks_def score_BBB sort_by_score_desc_def)
  moreover have "ticker result_BBB = ''BBB''" "score result_BBB = 6"
    by (simp_all add: result_BBB_def)
  ultimately show "\<exists>e t d r rs. get_market_cap e t d = Inr (Some 0) \<and>
      screen_stocks e [t] d = Inr rs \<and> r \<in> set rs \<and> ticker r = t \<and> score r = 6"
    by (intro exI[of _ example_env] exI[of _ "''BBB''"] exI[of _ "[]"]
        exI[of _ result_BBB] exI[of _ "[result_BBB]"]) simp
qed

theorem nonpositive_market_cap_scored_witness:
  "\<exists>r. score_stock example_env ''BBB'' ''2024-01-01'' = Inr (Some r) \<and>
      ticker r = ''BBB'' \<and> margin_of_safety r = None \<and>
      (score r, reasons r) =
         rule_eg example_env cheap_metrics (rule_rg example_env cheap_metrics
           (rule_cr example_env cheap_metrics (rule_da example_env cheap_metrics
             (rule_pb example_env cheap_metrics
               (rule_pe example_env cheap_metrics (0, [])))))) \<and>
      0 \<le> score r \<and> score r \<le> 6"
proof -
  have "get_financial_metrics example_env ''BBB'' ''2024-01-01'' ''annual'' 1
          = Inr (cheap_metrics # []) \<and>
      search_line_items example_env ''BBB'' DEFAULT_LINE_ITEMS ''2024-01-01'' ''annual'' 1
          = Inr (graham_item # []) \<and>
      get_market_cap example_env ''BBB'' ''2024-01-01'' = Inr (Some 0) \<and> (0::real) \<le> 0"
    by (simp add: example_env_def)
  from nonpositive_market_cap_scored [THEN conjunct1, rule_format, OF this]
  show ?thesis .
qed

text \<open>
  C10. In every result the score is the number of reasons, plus one when the
  margin-of-safety rule triggered (a margin above 0.3: one reason, two points). So
  the score is at least the number of reasons and at most one more.
\<close>

theorem score_counts_reasons:
  "score_stock e t d = Inr (Some r) \<Longrightarrow>
     score r = int (length (reasons r))
               + (if \<exists>m. margin_of_safety r = Some m \<and> m > 0.3 then 1 else 0)
     \<and> int (length (reasons r)) \<le> score r
     \<and> score r \<le> int (length (reasons r)) + 1"
proof -
  assume "score_stock e t d = Inr (Some r)"
  then obtain fm li mc where b: "score_body e t fm li mc = Inr (Some r)"
    using score_stock_body by blast
  show ?thesis
    unfolding score_body_shape(4)[OF b] length_fired_mos by simp
qed

theorem score_counts_reasons_witness:
  "score_stock example_env ''AAA'' ''2024-01-01'' = Inr (Some result_AAA) \<and>
   score result_AAA = int (length (reasons result_AAA)) + 1 \<and>
   margin_of_safety result_AAA = Some 1"
  using score_counts_reasons [OF score_AAA [of "''2024-01-01''"]] score_AAA
  by (simp add: result_AAA_def)

end
